theory Spec2Isabelle
  imports Complex_Main "HOL-Library.AList"
begin

section \<open>JavaScript values and strings\<close>

text \<open>
  Strings are lists of code units. \<open>String.prototype.includes\<close> is the
  contiguous-substring test; \<open>startsWith s t\<close> says that \<open>t\<close> is a prefix of \<open>s\<close>.
\<close>

fun startsWith :: "'a list \<Rightarrow> 'a list \<Rightarrow> bool" where
  "startsWith s [] = True"
| "startsWith [] (y # t) = False"
| "startsWith (x # s) (y # t) = (x = y \<and> startsWith s t)"

fun str_includes :: "'a list \<Rightarrow> 'a list \<Rightarrow> bool" where
  "str_includes [] t = (t = [])"
| "str_includes (x # s) t = (startsWith (x # s) t \<or> str_includes s t)"

text \<open>
  The values \<open>JSON.parse\<close> and \<open>response.json()\<close> produce. A number is
  the rational it denotes, or an infinity (what a literal beyond the range of
  a double parses to; \<open>True\<close> is the negative one); an object keeps its
  members in document order.
\<close>

datatype json =
    JNull
  | JBool bool
  | JNumber rat
  | JInfinity bool
  | JString string
  | JArray "json list"
  | JObject "(string \<times> json) list"

text \<open>The operand test of \<open>||\<close>, \<open>?:\<close> and \<open>if\<close> (ToBoolean).\<close>

fun truthy :: "json \<Rightarrow> bool" where
  "truthy JNull = False"
| "truthy (JBool b) = b"
| "truthy (JNumber n) = (n \<noteq> 0)"
| "truthy (JInfinity negative) = True"
| "truthy (JString s) = (s \<noteq> [])"
| "truthy (JArray xs) = True"
| "truthy (JObject kvs) = True"

text \<open>\<open>Array.prototype.join\<close> with the default separator.\<close>

fun join_comma :: "string list \<Rightarrow> string" where
  "join_comma [] = []"
| "join_comma [s] = s"
| "join_comma (s # t # ss) = s @ '','' @ join_comma (t # ss)"

text \<open>
  What a \<open>catch\<close> clause receives. \<open>new Error(msg)\<close>, and the TypeError and
  SyntaxError the host raises, carry a message and no \<open>status\<close> property; each
  is an instance of \<open>Error\<close>.
\<close>

datatype error_name = Error | TypeError | SyntaxError

record js_error =
  err_name :: error_name
  err_message :: string
  err_status :: "nat option"

definition new_Error :: "string \<Rightarrow> js_error" where
  "new_Error msg = \<lparr>err_name = Error, err_message = msg, err_status = None\<rparr>"

definition host_TypeError :: "string \<Rightarrow> js_error" where
  "host_TypeError msg = \<lparr>err_name = TypeError, err_message = msg, err_status = None\<rparr>"

definition host_SyntaxError :: "string \<Rightarrow> js_error" where
  "host_SyntaxError msg = \<lparr>err_name = SyntaxError, err_message = msg, err_status = None\<rparr>"

text \<open>
  ToString, as \<open>new Error(v)\<close> applies it to its argument; \<open>Inl\<close> is the
  TypeError the conversion throws. The text of a number is the host's
  (\<open>Number.prototype.toString\<close>), passed as \<open>numstr\<close>. An array is joined: its
  elements are converted in order, \<open>null\<close> printing as the empty string, and the
  first conversion that throws ends the join. An object is converted by its
  method \<open>toString\<close>: the inherited one gives \<open>[object Object]\<close>; an own member
  \<open>toString\<close> of a parsed object is never a function, and then no method gives
  a primitive value and the conversion throws (the message is V8's).
\<close>

fun first_error :: "(js_error + 'a) list \<Rightarrow> js_error + 'a list" where
  "first_error [] = Inr []"
| "first_error (Inl e # rs) = Inl e"
| "first_error (Inr v # rs) =
     (case first_error rs of Inl e \<Rightarrow> Inl e | Inr vs \<Rightarrow> Inr (v # vs))"

fun to_string :: "(rat \<Rightarrow> string) \<Rightarrow> json \<Rightarrow> js_error + string" where
  "to_string numstr JNull = Inr ''null''"
| "to_string numstr (JBool b) = Inr (if b then ''true'' else ''false'')"
| "to_string numstr (JNumber n) = Inr (numstr n)"
| "to_string numstr (JInfinity negative) = Inr (if negative then ''-Infinity'' else ''Infinity'')"
| "to_string numstr (JString s) = Inr s"
| "to_string numstr (JArray xs) =
     (case first_error (map (\<lambda>x. if x = JNull then Inr [] else to_string numstr x) xs) of
        Inl e \<Rightarrow> Inl e
      | Inr texts \<Rightarrow> Inr (join_comma texts))"
| "to_string numstr (JObject kvs) =
     (if ''toString'' \<in> fst ` set kvs
      then Inl (host_TypeError ''Cannot convert object to primitive value'')
      else Inr ''[object Object]'')"

text \<open>
  \<open>throw new Error(v)\<close>: what is thrown is the new error with the text of \<open>v\<close>
  as its message, or the TypeError of the conversion.
\<close>

definition throw_new_Error :: "(rat \<Rightarrow> string) \<Rightarrow> json \<Rightarrow> js_error" where
  "throw_new_Error numstr v =
     (case to_string numstr v of
        Inl e \<Rightarrow> e
      | Inr msg \<Rightarrow> new_Error msg)"

text \<open>
  Reading a member \<open>v.k\<close> of a parsed value, for a name \<open>k\<close> that no built-in
  prototype defines (\<open>detail\<close>, \<open>message\<close>): \<open>None\<close> is \<open>undefined\<close>; on
  \<open>null\<close> the read throws a TypeError (the message is V8's). Of a repeated key
  \<open>JSON.parse\<close> keeps the last value.
\<close>

definition null_read_message :: "string \<Rightarrow> string" where
  "null_read_message k =
     ''Cannot read properties of null (reading '' @ [CHR 0x27] @ k @ [CHR 0x27] @ '')''"

fun read_member :: "json \<Rightarrow> string \<Rightarrow> js_error + json option" where
  "read_member JNull k = Inl (host_TypeError (null_read_message k))"
| "read_member (JObject kvs) k = Inr (map_of (rev kvs) k)"
| "read_member v k = Inr None"

section \<open>API client (\<open>src/lib/api.ts\<close>)\<close>

subsection \<open>Responses: \<open>request\<close>\<close>

text \<open>
  The outcome of \<open>fetch\<close>: the promise rejects (a network failure, a TypeError
  with the host's message) or resolves to a response with a status and a body.
  \<open>response.json()\<close> resolves to the parsed body or rejects with a SyntaxError.
\<close>

datatype body_json = Parsed json | Unparseable string

record http_response =
  status :: nat
  json_body :: body_json

datatype fetch_outcome = Rejected string | Resolved http_response

definition response_ok :: "http_response \<Rightarrow> bool" where
  "response_ok r = (200 \<le> status r \<and> status r \<le> 299)"

text \<open>
  \<open>throw new Error(error.detail || error.message || "Request failed")\<close>: the
  error that is thrown.
\<close>

definition message_or :: "(rat \<Rightarrow> string) \<Rightarrow> string \<Rightarrow> json \<Rightarrow> js_error" where
  "message_or numstr fallback error =
     (case read_member error ''message'' of
        Inl e \<Rightarrow> e
      | Inr None \<Rightarrow> new_Error fallback
      | Inr (Some m) \<Rightarrow>
          if truthy m then throw_new_Error numstr m else new_Error fallback)"

definition error_of_body :: "(rat \<Rightarrow> string) \<Rightarrow> string \<Rightarrow> json \<Rightarrow> js_error" where
  "error_of_body numstr fallback error =
     (case read_member error ''detail'' of
        Inl e \<Rightarrow> e
      | Inr None \<Rightarrow> message_or numstr fallback error
      | Inr (Some d) \<Rightarrow>
          if truthy d then throw_new_Error numstr d
          else message_or numstr fallback error)"

text \<open>
  The part of \<open>request\<close> after \<open>await fetch(...)\<close>: \<open>Inl\<close> is the error the
  returned promise rejects with, \<open>Inr\<close> the value it resolves to.
\<close>

definition request :: "(rat \<Rightarrow> string) \<Rightarrow> fetch_outcome \<Rightarrow> js_error + json" where
  "request numstr outcome =
     (case outcome of
        Rejected msg \<Rightarrow> Inl (host_TypeError msg)
      | Resolved response \<Rightarrow>
          if \<not> response_ok response then
            Inl (error_of_body numstr ''Request failed''
                  (case json_body response of
                     Parsed j \<Rightarrow> j
                   | Unparseable _ \<Rightarrow> JObject [(''message'', JString ''Request failed'')]))
          else
            (case json_body response of
               Parsed j \<Rightarrow> Inr j
             | Unparseable msg \<Rightarrow> Inl (host_SyntaxError msg)))"

text \<open>
  The same after the \<open>fetch\<close> of \<open>uploadFile\<close>, with its own fallback text.
\<close>

definition uploadFile_response :: "(rat \<Rightarrow> string) \<Rightarrow> fetch_outcome \<Rightarrow> js_error + json" where
  "uploadFile_response numstr outcome =
     (case outcome of
        Rejected msg \<Rightarrow> Inl (host_TypeError msg)
      | Resolved response \<Rightarrow>
          if \<not> response_ok response then
            Inl (error_of_body numstr ''Upload failed''
                  (case json_body response of
                     Parsed j \<Rightarrow> j
                   | Unparseable _ \<Rightarrow> JObject [(''message'', JString ''Upload failed'')]))
          else
            (case json_body response of
               Parsed j \<Rightarrow> Inr j
             | Unparseable msg \<Rightarrow> Inl (host_SyntaxError msg)))"

text \<open>
  A member that \<open>||\<close> passes over: the value is not \<open>null\<close>, and its member
  \<open>k\<close> is absent or not truthy.
\<close>

definition falsy_member :: "json \<Rightarrow> string \<Rightarrow> bool" where
  "falsy_member j k =
     (case read_member j k of
        Inl e \<Rightarrow> False
      | Inr None \<Rightarrow> True
      | Inr (Some v) \<Rightarrow> \<not> truthy v)"

text \<open>
  \<open>request<T>\<close>: the type argument is erased when the program runs. \<open>view\<close>
  reads the parsed body at the declared type \<open>ApiResponse<T>\<close>; an error passes
  as it is.
\<close>

definition request_as :: "(json \<Rightarrow> 'a) \<Rightarrow> (rat \<Rightarrow> string) \<Rightarrow> fetch_outcome \<Rightarrow> js_error + 'a" where
  "request_as view numstr outcome =
     (case request numstr outcome of
        Inl error \<Rightarrow> Inl error
      | Inr parsed \<Rightarrow> Inr (view parsed))"

subsection \<open>Requests: what \<open>fetch\<close> is called with\<close>

text \<open>
  \<open>localStorage\<close>: \<open>getItem\<close> of an absent key is \<open>null\<close> (\<open>None\<close>). An object
  literal is an association list in insertion order; a spread \<open>{...a, ...b}\<close>
  writes the members left to right, a later one replacing an earlier one of the
  same key.
\<close>

type_synonym storage = "string \<rightharpoonup> string"

definition object_spread :: "('k \<times> 'v) list list \<Rightarrow> ('k \<times> 'v) list" where
  "object_spread parts = foldl (\<lambda>acc kv. AList.update (fst kv) (snd kv) acc) [] (concat parts)"

datatype http_method = GET | POST | PUT | DELETE

text \<open>
  The options of a call (the member \<open>method\<close> is the field \<open>req_method\<close>).
  A request body: the text \<open>JSON.stringify\<close> gives for a value, or a
  \<open>FormData\<close> with its appended entries. \<open>'f\<close> is the browser's \<open>File\<close>.
\<close>

datatype 'f request_body = JSON_text json | FormData "(string \<times> 'f) list"

record 'f request_init =
  req_method :: "http_method option"
  headers :: "(string \<times> string) list"
  body :: "'f request_body option"

record 'f fetch_call =
  url :: string
  init :: "'f request_init"

definition no_options :: "'f request_init" where
  "no_options = \<lparr>req_method = None, headers = [], body = None\<rparr>"

definition getAuthHeader :: "storage \<Rightarrow> (string \<times> string) list" where
  "getAuthHeader ls =
     (case ls ''auth_token'' of
        None \<Rightarrow> []
      | Some token \<Rightarrow> if token \<noteq> [] then [(''Authorization'', ''Bearer '' @ token)] else [])"

text \<open>The \<open>fetch\<close> call of \<open>request(endpoint, options)\<close>; \<open>base\<close> is \<open>API_BASE_URL\<close>.\<close>

definition request_fetch :: "string \<Rightarrow> storage \<Rightarrow> string \<Rightarrow> 'f request_init \<Rightarrow> 'f fetch_call" where
  "request_fetch base ls endpoint options =
     \<lparr>url = base @ endpoint,
      init = options\<lparr>headers :=
        object_spread
          [[(''Content-Type'', ''application/json'')], getAuthHeader ls, headers options]\<rparr>\<rparr>"

text \<open>
  The methods of \<open>ApiClient\<close>; the objects the callers pass are JSON values.
\<close>

datatype 'f api_method =
    Signup string string string
  | Login string string
  | GetMe
  | GetProfile
  | UpdateProfile json
  | GetExpenses "rat option"
  | GetExpense string
  | CreateExpense json
  | UpdateExpense string json
  | DeleteExpense string
  | UploadFile 'f
  | ListFiles

text \<open>
  The one \<open>fetch\<close> call a method makes, with the storage as it is at the call.
  \<open>numstr\<close> is the host's text of a number (in the template literal of
  \<open>getExpenses\<close>).
\<close>

fun outbound :: "string \<Rightarrow> (rat \<Rightarrow> string) \<Rightarrow> storage \<Rightarrow> 'f api_method \<Rightarrow> 'f fetch_call" where
  "outbound base numstr ls (Signup email password name) =
     request_fetch base ls ''/auth/signup''
       \<lparr>req_method = Some POST, headers = [],
        body = Some (JSON_text (JObject
          [(''email'', JString email), (''password'', JString password),
           (''name'', JString name)]))\<rparr>"
| "outbound base numstr ls (Login email password) =
     request_fetch base ls ''/auth/login''
       \<lparr>req_method = Some POST, headers = [],
        body = Some (JSON_text (JObject
          [(''email'', JString email), (''password'', JString password)]))\<rparr>"
| "outbound base numstr ls GetMe = request_fetch base ls ''/auth/me'' no_options"
| "outbound base numstr ls GetProfile = request_fetch base ls ''/profiles/me'' no_options"
| "outbound base numstr ls (UpdateProfile data) =
     request_fetch base ls ''/profiles/me''
       \<lparr>req_method = Some PUT, headers = [], body = Some (JSON_text data)\<rparr>"
| "outbound base numstr ls (GetExpenses days) =
     request_fetch base ls
       (''/expenses'' @
          (case days of
             None \<Rightarrow> []
           | Some d \<Rightarrow> if d \<noteq> 0 then ''?days='' @ numstr d else []))
       no_options"
| "outbound base numstr ls (GetExpense ident) =
     request_fetch base ls (''/expenses/'' @ ident) no_options"
| "outbound base numstr ls (CreateExpense data) =
     request_fetch base ls ''/expenses''
       \<lparr>req_method = Some POST, headers = [], body = Some (JSON_text data)\<rparr>"
| "outbound base numstr ls (UpdateExpense ident data) =
     request_fetch base ls (''/expenses/'' @ ident)
       \<lparr>req_method = Some PUT, headers = [], body = Some (JSON_text data)\<rparr>"
| "outbound base numstr ls (DeleteExpense ident) =
     request_fetch base ls (''/expenses/'' @ ident)
       \<lparr>req_method = Some DELETE, headers = [], body = None\<rparr>"
| "outbound base numstr ls (UploadFile file) =
     \<lparr>url = base @ ''/s3/upload'',
      init =
        \<lparr>req_method = Some POST,
         headers =
           [(''Authorization'',
             (case ls ''auth_token'' of
                None \<Rightarrow> []
              | Some token \<Rightarrow> if token \<noteq> [] then ''Bearer '' @ token else []))],
         body = Some (FormData [(''file'', file)])\<rparr>\<rparr>"
| "outbound base numstr ls ListFiles = request_fetch base ls ''/s3/files'' no_options"

definition header :: "'f fetch_call \<Rightarrow> string \<Rightarrow> string option" where
  "header call k = map_of (headers (init call)) k"

text \<open>The address, the verb and the body of a call.\<close>

definition sent :: "'f fetch_call \<Rightarrow> string \<times> http_method option \<times> 'f request_body option" where
  "sent call = (url call, req_method (init call), body (init call))"

subsection \<open>The declared shapes of the backend's data\<close>

record user =
  id_user :: string
  email :: string
  name :: string
  role :: string

record 'a api_response =
  success :: bool
  message :: string
  data :: 'a

record auth_response =
  token :: string
  refresh_token :: string
  expires_in :: rat
  user_of :: user

text \<open>
  \<open>ExpenseCreate\<close> and \<open>Expense\<close>: an optional member is an \<open>option\<close>, the
  member \<open>note\<close> is the field \<open>note_text\<close>, an
  attachment a pair of its name and url. \<open>Expense\<close> has the members of
  \<open>ExpenseCreate\<close> and three more.
\<close>

record expense_create =
  user_id :: string
  expense_date :: string
  amount :: rat
  category :: string
  merchant :: "string option"
  note_text :: "string option"
  tags :: "string list option"
  attachments :: "(string \<times> string) list option"

record expense = expense_create +
  id_expense :: string
  created_at :: string
  updated_at :: string

section \<open>Session store (\<open>AuthProvider\<close>)\<close>

text \<open>
  The provider's state: the browser's \<open>localStorage\<close>, the React state \<open>user\<close>
  (\<open>None\<close> is \<open>null\<close>: anonymous) and \<open>loading\<close>, and what the user has
  been shown, oldest first: the toasts and the navigations.
\<close>

datatype variant = Default | Destructive

datatype ui_effect = Toast string string variant | Navigate string

record auth_state =
  localStorage :: storage
  user :: "user option"
  loading :: bool
  shown :: "ui_effect list"

text \<open>
  The host's built-ins the provider calls: the clock, the text of a number, and
  \<open>JSON.stringify\<close> and \<open>JSON.parse\<close> on a user snapshot (\<open>JSON.parse\<close> throws a
  SyntaxError on a text that is not JSON, and gives \<open>null\<close> for the text \<open>null\<close>).
\<close>

record host =
  Date_now :: rat
  number_toString :: "rat \<Rightarrow> string"
  JSON_stringify :: "user \<Rightarrow> string"
  JSON_parse :: "string \<Rightarrow> js_error + user option"

definition removeItem :: "string \<Rightarrow> storage \<Rightarrow> storage" where
  "removeItem k ls = ls(k := None)"

definition setItem :: "string \<Rightarrow> string \<Rightarrow> storage \<Rightarrow> storage" where
  "setItem k v ls = ls(k \<mapsto> v)"

text \<open>
  The inner \<open>try\<close> of \<open>checkAuth\<close> with its \<open>catch\<close>: \<open>getMe\<close> is how the
  promise of \<open>api.getMe()\<close> settles. \<open>Inl\<close> is the error that leaves the block,
  \<open>Inr\<close> the state when it completes.
\<close>

definition checkAuth_lookup :: "host \<Rightarrow> js_error + user api_response \<Rightarrow> auth_state \<Rightarrow> js_error + auth_state" where
  "checkAuth_lookup h getMe s =
     (case getMe of
        Inr response \<Rightarrow>
          Inr (s\<lparr>user := Some (data response),
                localStorage :=
                  setItem ''user_data'' (JSON_stringify h (data response)) (localStorage s)\<rparr>)
      | Inl error \<Rightarrow>
          if err_status error = Some 404 \<or> str_includes (err_message error) ''404'' then
            (case localStorage s ''user_data'' of
               None \<Rightarrow> Inr s
             | Some cachedUser \<Rightarrow>
                 if cachedUser \<noteq> [] then
                   (case JSON_parse h cachedUser of
                      Inl e \<Rightarrow> Inl e
                    | Inr u \<Rightarrow> Inr (s\<lparr>user := u\<rparr>))
                 else Inr s)
          else Inl error)"

definition checkAuth :: "host \<Rightarrow> js_error + user api_response \<Rightarrow> auth_state \<Rightarrow> auth_state" where
  "checkAuth h getMe s =
     (case localStorage s ''auth_token'' of
        None \<Rightarrow> s\<lparr>loading := False\<rparr>
      | Some stored \<Rightarrow>
          if stored = [] then s\<lparr>loading := False\<rparr>
          else
            (case checkAuth_lookup h getMe s of
               Inr s' \<Rightarrow> s'\<lparr>loading := False\<rparr>
             | Inl error \<Rightarrow>
                 s\<lparr>localStorage :=
                     removeItem ''user_data''
                       (removeItem ''tokenExpiry''
                         (removeItem ''auth_token'' (localStorage s))),
                   loading := False\<rparr>))"

text \<open>
  \<open>login\<close> and \<open>signup\<close>: \<open>result\<close> is how the promise of \<open>api.login\<close>
  (\<open>api.signup\<close>) settles. The second component is how the returned promise
  settles: the \<open>catch\<close> rethrows.
\<close>

definition store_session :: "host \<Rightarrow> auth_response \<Rightarrow> auth_state \<Rightarrow> auth_state" where
  "store_session h d s =
     s\<lparr>localStorage :=
         setItem ''user_data'' (JSON_stringify h (user_of d))
           (setItem ''tokenExpiry'' (number_toString h (Date_now h + expires_in d * 1000))
             (setItem ''auth_token'' (token d) (localStorage s))),
       user := Some (user_of d)\<rparr>"

definition login :: "host \<Rightarrow> js_error + auth_response api_response \<Rightarrow> auth_state \<Rightarrow> auth_state \<times> (js_error + unit)" where
  "login h result s =
     (case result of
        Inr response \<Rightarrow>
          (let s' = store_session h (data response) s in
           (s'\<lparr>shown := shown s' @
               [Toast ''Welcome back!'' ''You've successfully logged in.'' Default,
                Navigate ''/dashboard'']\<rparr>,
            Inr ()))
      | Inl error \<Rightarrow>
          (s\<lparr>shown := shown s @ [Toast ''Login failed'' (err_message error) Destructive]\<rparr>,
           Inl error))"

definition signup :: "host \<Rightarrow> js_error + auth_response api_response \<Rightarrow> auth_state \<Rightarrow> auth_state \<times> (js_error + unit)" where
  "signup h result s =
     (case result of
        Inr response \<Rightarrow>
          (let s' = store_session h (data response) s in
           (s'\<lparr>shown := shown s' @
               [Toast ''Account created!'' ''Welcome to Finance Tracker.'' Default,
                Navigate ''/dashboard'']\<rparr>,
            Inr ()))
      | Inl error \<Rightarrow>
          (s\<lparr>shown := shown s @ [Toast ''Signup failed'' (err_message error) Destructive]\<rparr>,
           Inl error))"

definition logout :: "auth_state \<Rightarrow> auth_state" where
  "logout s =
     s\<lparr>localStorage :=
         removeItem ''user_data''
           (removeItem ''tokenExpiry'' (removeItem ''auth_token'' (localStorage s))),
       user := None,
       shown := shown s @
         [Navigate ''/login'',
          Toast ''Logged out'' ''You've been successfully logged out.'' Default]\<rparr>"

section \<open>Expense form (\<open>Expenses\<close>)\<close>

text \<open>
  \<open>expenseSchema.safeParse\<close>: the validation library checks the members in the
  order of the schema and every check of a member in the order written, and
  collects one issue per failed check (an empty list is success). An issue has
  the member's key and a message: the one the schema gives, or the library's
  own text for a maximal length where the schema gives none. The form's amount
  is a finite number (the input handler replaces NaN by 0).
\<close>

datatype toast_text = Literal string | Library_too_long nat

record issue =
  issue_path :: string
  issue_message :: toast_text

definition check_expense_date :: "string \<Rightarrow> issue list" where
  "check_expense_date v =
     (if length v < 1
      then [\<lparr>issue_path = ''expense_date'', issue_message = Literal ''Date is required''\<rparr>]
      else [])"

definition check_amount :: "rat \<Rightarrow> issue list" where
  "check_amount v =
     (if v \<le> 0
      then [\<lparr>issue_path = ''amount'', issue_message = Literal ''Amount must be positive''\<rparr>]
      else []) @
     (if v > 999999
      then [\<lparr>issue_path = ''amount'', issue_message = Literal ''Amount too large''\<rparr>]
      else [])"

definition check_category :: "string \<Rightarrow> issue list" where
  "check_category v =
     (if length v < 1
      then [\<lparr>issue_path = ''category'', issue_message = Literal ''Category is required''\<rparr>]
      else []) @
     (if length v > 100
      then [\<lparr>issue_path = ''category'', issue_message = Library_too_long 100\<rparr>]
      else [])"

definition check_merchant :: "string option \<Rightarrow> issue list" where
  "check_merchant v =
     (case v of
        None \<Rightarrow> []
      | Some m \<Rightarrow>
          if length m > 200
          then [\<lparr>issue_path = ''merchant'', issue_message = Library_too_long 200\<rparr>]
          else [])"

definition check_note :: "string option \<Rightarrow> issue list" where
  "check_note v =
     (case v of
        None \<Rightarrow> []
      | Some n \<Rightarrow>
          if length n > 1000
          then [\<lparr>issue_path = ''note'', issue_message = Library_too_long 1000\<rparr>]
          else [])"

text \<open>The issues of one member, by its key; \<open>tags\<close> is a list of strings by its type.\<close>

definition member_issues :: "'a expense_create_scheme \<Rightarrow> string \<Rightarrow> issue list" where
  "member_issues formData k =
     (if k = ''expense_date'' then check_expense_date (expense_date formData)
      else if k = ''amount'' then check_amount (amount formData)
      else if k = ''category'' then check_category (category formData)
      else if k = ''merchant'' then check_merchant (merchant formData)
      else if k = ''note'' then check_note (note_text formData)
      else [])"

definition expenseSchema :: "'a expense_create_scheme \<Rightarrow> issue list" where
  "expenseSchema formData =
     concat (map (member_issues formData)
       [''expense_date'', ''amount'', ''category'', ''merchant'', ''note'', ''tags''])"

text \<open>
  What \<open>handleSubmit\<close> does, in order. \<open>result\<close> is how the promise of the one
  API call settles; \<open>LoadExpenses\<close> is the reload, a call of \<open>api.getExpenses\<close>.
\<close>

datatype form_effect =
    PreventDefault
  | ShowToast string toast_text variant
  | Api_updateExpense string expense_create
  | Api_createExpense expense_create
  | SetDialogOpen bool
  | ResetForm
  | LoadExpenses

fun is_network_call :: "form_effect \<Rightarrow> bool" where
  "is_network_call (Api_updateExpense ident d) = True"
| "is_network_call (Api_createExpense d) = True"
| "is_network_call LoadExpenses = True"
| "is_network_call e = False"

definition submitData :: "expense_create \<Rightarrow> expense_create" where
  "submitData formData =
     formData
       \<lparr>tags := (case tags formData of
                   None \<Rightarrow> None
                 | Some ts \<Rightarrow> if length ts > 0 then Some ts else None),
        attachments := (case attachments formData of
                   None \<Rightarrow> None
                 | Some atts \<Rightarrow> if length atts > 0 then Some atts else None)\<rparr>"

definition after_call :: "string \<Rightarrow> js_error + unit \<Rightarrow> form_effect list" where
  "after_call success_text result =
     (case result of
        Inr _ \<Rightarrow>
          [ShowToast ''Success'' (Literal success_text) Default, SetDialogOpen False, ResetForm,
           LoadExpenses]
      | Inl error \<Rightarrow> [ShowToast ''Error'' (Literal (err_message error)) Destructive])"

definition handleSubmit :: "expense_create \<Rightarrow> expense option \<Rightarrow> js_error + unit \<Rightarrow> form_effect list" where
  "handleSubmit formData editingExpense result =
     PreventDefault #
     (case expenseSchema formData of
        first # rest \<Rightarrow> [ShowToast ''Validation Error'' (issue_message first) Destructive]
      | [] \<Rightarrow>
          (case editingExpense of
             Some e \<Rightarrow>
               Api_updateExpense (id_expense e) (submitData formData) #
               after_call ''Expense updated successfully'' result
           | None \<Rightarrow>
               Api_createExpense (submitData formData) #
               after_call ''Expense created successfully'' result))"

section \<open>Dashboard aggregates (\<open>Dashboard\<close>)\<close>

text \<open>
  The accumulator of \<open>categoryTotals\<close> is the object literal \<open>{}\<close>: it has its
  own members, the ones the reducer writes, and it inherits the members of
  \<open>Object.prototype\<close>. A read \<open>acc[k]\<close> gives the own member of key \<open>k\<close>, else
  the inherited one, else \<open>undefined\<close> (\<open>None\<close>). A value held or read there is
  a number, an inherited member (a function, or the prototype itself for
  \<open>__proto__\<close>), or the string that \<open>+\<close> makes of a value that is not a number
  and the amount.
\<close>

datatype total = Num rat | Inherited string | Concat total rat

definition Object_prototype :: "string list" where
  "Object_prototype =
     [''constructor'', ''__defineGetter__'', ''__defineSetter__'', ''hasOwnProperty'',
      ''__lookupGetter__'', ''__lookupSetter__'', ''isPrototypeOf'',
      ''propertyIsEnumerable'', ''toString'', ''valueOf'', ''__proto__'',
      ''toLocaleString'']"

definition read_acc :: "(string \<rightharpoonup> total) \<Rightarrow> string \<Rightarrow> total option" where
  "read_acc acc k =
     (case acc k of
        Some v \<Rightarrow> Some v
      | None \<Rightarrow> if k \<in> set Object_prototype then Some (Inherited k) else None)"

text \<open>\<open>v || 0\<close>: a function, an object and a non-empty string are truthy.\<close>

fun or_zero :: "total option \<Rightarrow> total" where
  "or_zero None = Num 0"
| "or_zero (Some (Num n)) = (if n \<noteq> 0 then Num n else Num 0)"
| "or_zero (Some v) = v"

text \<open>\<open>v + amount\<close>: the sum of two numbers, else the concatenation of two texts.\<close>

fun plus_amount :: "total \<Rightarrow> rat \<Rightarrow> total" where
  "plus_amount (Num n) a = Num (n + a)"
| "plus_amount v a = Concat v a"

text \<open>
  \<open>acc[k] = v\<close>: the write makes an own member, but for the key \<open>__proto__\<close>,
  whose inherited setter ignores a value that is not an object.
\<close>

definition write_acc :: "(string \<rightharpoonup> total) \<Rightarrow> string \<Rightarrow> total \<Rightarrow> (string \<rightharpoonup> total)" where
  "write_acc acc k v = (if k = ''__proto__'' then acc else acc(k \<mapsto> v))"

definition categoryTotals :: "'a expense_create_scheme list \<Rightarrow> (string \<rightharpoonup> total)" where
  "categoryTotals expenses =
     foldl (\<lambda>acc exp.
         write_acc acc (category exp)
           (plus_amount (or_zero (read_acc acc (category exp))) (amount exp)))
       Map.empty expenses"

section \<open>File list (\<open>Files\<close>)\<close>

















section \<open>Facts about the API client\<close>

lemma spread_keeps_key:
  "k \<in> fst ` set acc \<Longrightarrow>
   k \<in> fst ` set (foldl (\<lambda>acc kv. AList.update (fst kv) (snd kv) acc) acc xs)"
proof (induction xs arbitrary: acc)
  case Nil
  then show ?case by simp
next
  case (Cons x xs)
  have "k \<in> fst ` set (AList.update (fst x) (snd x) acc)"
    using Cons.prems by (simp add: dom_update)
  then show ?case using Cons.IH by simp
qed

lemma request_fetch_sets_content_type:
  "header (request_fetch base ls endpoint options) ''Content-Type'' \<noteq> None"
proof -
  have "''Content-Type'' \<in> fst ` set (headers (init (request_fetch base ls endpoint options)))"
    unfolding request_fetch_def object_spread_def
    by (cases "getAuthHeader ls = []")
       (auto simp: getAuthHeader_def intro!: spread_keeps_key split: option.splits if_splits)
  then show ?thesis
    unfolding header_def by (metis map_of_eq_None_iff)
qed

lemma header_request_fetch_auth:
  "header (request_fetch base ls ep \<lparr>req_method = m, headers = [], body = b\<rparr>) ''Authorization'' =
     (case ls ''auth_token'' of
        None \<Rightarrow> None
      | Some t \<Rightarrow> if t \<noteq> [] then Some (''Bearer '' @ t) else None)"
  by (simp add: header_def request_fetch_def object_spread_def getAuthHeader_def
           split: option.splits)

lemma header_request_fetch_content_type:
  "header (request_fetch base ls ep \<lparr>req_method = m, headers = [], body = b\<rparr>) ''Content-Type'' =
     Some ''application/json''"
  by (simp add: header_def request_fetch_def object_spread_def getAuthHeader_def
           split: option.splits)

lemma body_request_fetch:
  "body (init (request_fetch base ls ep options)) = body options"
  by (simp add: request_fetch_def)

text \<open>
  Claim C7. Every method of the client reads \<open>auth_token\<close> from the storage as
  it is at the call, and the call depends on nothing else of the storage. When a
  (non-empty) token is stored, the \<open>fetch\<close> call of every method, \<open>uploadFile\<close>
  included, carries the header \<open>Authorization: Bearer\<close> followed by the token.
  When none is stored (the key is absent, or holds the empty string, which the
  client reads as no token), no call made through \<open>request\<close> has an
  \<open>Authorization\<close> header.
\<close>

theorem bearer_token_attached:
  "(ls ''auth_token'' = Some stored \<and> stored \<noteq> [] \<longrightarrow>
      header (outbound base numstr ls m) ''Authorization'' = Some (''Bearer '' @ stored)) \<and>
   ((ls ''auth_token'' = None \<or> ls ''auth_token'' = Some []) \<and> (\<forall>f. m \<noteq> UploadFile f) \<longrightarrow>
      header (outbound base numstr ls m) ''Authorization'' = None) \<and>
   (ls' ''auth_token'' = ls ''auth_token'' \<longrightarrow>
      outbound base numstr ls' m = outbound base numstr ls m)"
proof -
  have a: "header (outbound base numstr ls m) ''Authorization'' = Some (''Bearer '' @ stored)"
    if "ls ''auth_token'' = Some stored" "stored \<noteq> []"
    using that
    by (cases m) (simp_all add: no_options_def header_request_fetch_auth, simp add: header_def)
  have b: "header (outbound base numstr ls m) ''Authorization'' = None"
    if "ls ''auth_token'' = None \<or> ls ''auth_token'' = Some []" "\<forall>f. m \<noteq> UploadFile f"
    using that
    by (cases m) (auto simp: no_options_def header_request_fetch_auth)
  have c: "outbound base numstr ls' m = outbound base numstr ls m"
    if "ls' ''auth_token'' = ls ''auth_token''"
    using that
    by (cases m) (simp_all add: request_fetch_def getAuthHeader_def)
  from a b c show ?thesis by blast
qed

theorem bearer_token_attached_witness:
  "header (outbound ''http://api'' (\<lambda>n. ''30'') [''auth_token'' \<mapsto> ''abc''] (UploadFile (1::nat)))
      ''Authorization'' = Some ''Bearer abc'' \<and>
   header (outbound ''http://api'' (\<lambda>n. ''30'') [''auth_token'' \<mapsto> ''abc'']
      (GetExpenses (Some 30) :: nat api_method)) ''Authorization'' = Some ''Bearer abc'' \<and>
   header (outbound ''http://api'' (\<lambda>n. ''30'') Map.empty (GetMe :: nat api_method))
      ''Authorization'' = None \<and>
   outbound ''http://api'' (\<lambda>n. ''30'') [''auth_token'' \<mapsto> ''abc'', ''user_data'' \<mapsto> ''{}'']
      (ListFiles :: nat api_method) =
   outbound ''http://api'' (\<lambda>n. ''30'') [''auth_token'' \<mapsto> ''abc''] (ListFiles :: nat api_method)"
  using bearer_token_attached [of "[''auth_token'' \<mapsto> ''abc'']" "''abc''" "''http://api''"
          "\<lambda>n. ''30''" "UploadFile (1::nat)" "[''auth_token'' \<mapsto> ''abc'']"]
        bearer_token_attached [of "[''auth_token'' \<mapsto> ''abc'']" "''abc''" "''http://api''"
          "\<lambda>n. ''30''" "GetExpenses (Some 30) :: nat api_method" "[''auth_token'' \<mapsto> ''abc'']"]
        bearer_token_attached [of "Map.empty" "''abc''" "''http://api''"
          "\<lambda>n. ''30''" "GetMe :: nat api_method" "Map.empty"]
        bearer_token_attached [of "[''auth_token'' \<mapsto> ''abc'']" "''abc''" "''http://api''"
          "\<lambda>n. ''30''" "ListFiles :: nat api_method"
          "[''auth_token'' \<mapsto> ''abc'', ''user_data'' \<mapsto> ''{}'']"]
  by simp

text \<open>
  Claim C8. Every method but \<open>uploadFile\<close> is a call of \<open>request\<close>: its
  \<open>fetch\<close> call has the header \<open>Content-Type: application/json\<close> and its body,
  when it has one, is \<open>JSON.stringify\<close> of a value. Each method that carries a
  payload sends it as that JSON text, to its endpoint and with its verb; the
  methods that only read, and the delete, send no body. \<open>uploadFile\<close> sets no
  content type, sends a \<open>FormData\<close> whose one entry \<open>file\<close> is the file, and
  its call is not one that \<open>request\<close> makes, whatever the endpoint and options.
\<close>

theorem upload_alone_bypasses_json:
  "((\<forall>f. m \<noteq> UploadFile f) \<longrightarrow>
      (\<exists>endpoint options. outbound base numstr ls m = request_fetch base ls endpoint options) \<and>
      header (outbound base numstr ls m) ''Content-Type'' = Some ''application/json'' \<and>
      (case body (init (outbound base numstr ls m)) of
         None \<Rightarrow> True
       | Some (JSON_text j) \<Rightarrow> True
       | Some (FormData entries) \<Rightarrow> False)) \<and>
   (m = UploadFile file \<longrightarrow>
      header (outbound base numstr ls m) ''Content-Type'' = None \<and>
      body (init (outbound base numstr ls m)) = Some (FormData [(''file'', file)]) \<and>
      (\<forall>endpoint options. outbound base numstr ls m \<noteq> request_fetch base ls endpoint options)) \<and>
   sent (outbound base numstr ls (Signup e pw nm :: 'f api_method)) =
     (base @ ''/auth/signup'', Some POST,
      Some (JSON_text (JObject
        [(''email'', JString e), (''password'', JString pw), (''name'', JString nm)]))) \<and>
   sent (outbound base numstr ls (Login e pw :: 'f api_method)) =
     (base @ ''/auth/login'', Some POST,
      Some (JSON_text (JObject [(''email'', JString e), (''password'', JString pw)]))) \<and>
   sent (outbound base numstr ls (UpdateProfile d :: 'f api_method)) =
     (base @ ''/profiles/me'', Some PUT, Some (JSON_text d)) \<and>
   sent (outbound base numstr ls (CreateExpense d :: 'f api_method)) =
     (base @ ''/expenses'', Some POST, Some (JSON_text d)) \<and>
   sent (outbound base numstr ls (UpdateExpense i d :: 'f api_method)) =
     (base @ ''/expenses/'' @ i, Some PUT, Some (JSON_text d)) \<and>
   sent (outbound base numstr ls (DeleteExpense i :: 'f api_method)) =
     (base @ ''/expenses/'' @ i, Some DELETE, None) \<and>
   sent (outbound base numstr ls (GetMe :: 'f api_method)) = (base @ ''/auth/me'', None, None) \<and>
   sent (outbound base numstr ls (GetProfile :: 'f api_method)) =
     (base @ ''/profiles/me'', None, None) \<and>
   sent (outbound base numstr ls (GetExpenses None :: 'f api_method)) =
     (base @ ''/expenses'', None, None) \<and>
   sent (outbound base numstr ls (GetExpenses (Some 0) :: 'f api_method)) =
     (base @ ''/expenses'', None, None) \<and>
   (days \<noteq> 0 \<longrightarrow>
      sent (outbound base numstr ls (GetExpenses (Some days) :: 'f api_method)) =
        (base @ ''/expenses?days='' @ numstr days, None, None)) \<and>
   sent (outbound base numstr ls (GetExpense i :: 'f api_method)) =
     (base @ ''/expenses/'' @ i, None, None) \<and>
   sent (outbound base numstr ls (ListFiles :: 'f api_method)) =
     (base @ ''/s3/files'', None, None) \<and>
   sent (outbound base numstr ls (UploadFile file)) =
     (base @ ''/s3/upload'', Some POST, Some (FormData [(''file'', file)]))"
proof -
  have ct: "header (outbound base numstr ls (UploadFile file)) ''Content-Type'' = None"
    by (simp add: header_def)
  have differs: "outbound base numstr ls (UploadFile file) \<noteq> request_fetch base ls endpoint options"
    for endpoint options
    using ct request_fetch_sets_content_type [of base ls endpoint options] by metis
  have upload: "body (init (outbound base numstr ls (UploadFile file))) =
      Some (FormData [(''file'', file)])"
    by simp
  have routed: "\<exists>endpoint options. outbound base numstr ls m = request_fetch base ls endpoint options"
    if "\<forall>f. m \<noteq> UploadFile f"
    using that by (cases m) auto
  have json_type: "header (outbound base numstr ls m) ''Content-Type'' = Some ''application/json''"
    if "\<forall>f. m \<noteq> UploadFile f"
    using that by (cases m) (auto simp: no_options_def header_request_fetch_content_type)
  have json_body: "(case body (init (outbound base numstr ls m)) of
         None \<Rightarrow> True
       | Some (JSON_text j) \<Rightarrow> True
       | Some (FormData entries) \<Rightarrow> False)"
    if "\<forall>f. m \<noteq> UploadFile f"
    using that by (cases m) (auto simp: no_options_def body_request_fetch)
  have pins:
    "sent (outbound base numstr ls (Signup e pw nm :: 'f api_method)) =
      (base @ ''/auth/signup'', Some POST,
       Some (JSON_text (JObject
         [(''email'', JString e), (''password'', JString pw), (''name'', JString nm)])))"
    "sent (outbound base numstr ls (Login e pw :: 'f api_method)) =
      (base @ ''/auth/login'', Some POST,
       Some (JSON_text (JObject [(''email'', JString e), (''password'', JString pw)])))"
    "sent (outbound base numstr ls (UpdateProfile d :: 'f api_method)) =
      (base @ ''/profiles/me'', Some PUT, Some (JSON_text d))"
    "sent (outbound base numstr ls (CreateExpense d :: 'f api_method)) =
      (base @ ''/expenses'', Some POST, Some (JSON_text d))"
    "sent (outbound base numstr ls (UpdateExpense i d :: 'f api_method)) =
      (base @ ''/expenses/'' @ i, Some PUT, Some (JSON_text d))"
    "sent (outbound base numstr ls (DeleteExpense i :: 'f api_method)) =
      (base @ ''/expenses/'' @ i, Some DELETE, None)"
    "sent (outbound base numstr ls (GetMe :: 'f api_method)) = (base @ ''/auth/me'', None, None)"
    "sent (outbound base numstr ls (GetProfile :: 'f api_method)) =
      (base @ ''/profiles/me'', None, None)"
    "sent (outbound base numstr ls (GetExpenses None :: 'f api_method)) =
      (base @ ''/expenses'', None, None)"
    "sent (outbound base numstr ls (GetExpenses (Some 0) :: 'f api_method)) =
      (base @ ''/expenses'', None, None)"
    "days \<noteq> 0 \<longrightarrow>
      sent (outbound base numstr ls (GetExpenses (Some days) :: 'f api_method)) =
        (base @ ''/expenses?days='' @ numstr days, None, None)"
    "sent (outbound base numstr ls (GetExpense i :: 'f api_method)) =
      (base @ ''/expenses/'' @ i, None, None)"
    "sent (outbound base numstr ls (ListFiles :: 'f api_method)) =
      (base @ ''/s3/files'', None, None)"
    "sent (outbound base numstr ls (UploadFile file)) =
      (base @ ''/s3/upload'', Some POST, Some (FormData [(''file'', file)]))"
    by (simp_all add: sent_def request_fetch_def no_options_def)
  from ct differs upload routed json_type json_body
  have core: "((\<forall>f. m \<noteq> UploadFile f) \<longrightarrow>
      (\<exists>endpoint options. outbound base numstr ls m = request_fetch base ls endpoint options) \<and>
      header (outbound base numstr ls m) ''Content-Type'' = Some ''application/json'' \<and>
      (case body (init (outbound base numstr ls m)) of
         None \<Rightarrow> True
       | Some (JSON_text j) \<Rightarrow> True
       | Some (FormData entries) \<Rightarrow> False)) \<and>
   (m = UploadFile file \<longrightarrow>
      header (outbound base numstr ls m) ''Content-Type'' = None \<and>
      body (init (outbound base numstr ls m)) = Some (FormData [(''file'', file)]) \<and>
      (\<forall>endpoint options. outbound base numstr ls m \<noteq> request_fetch base ls endpoint options))"
    by blast
  from core pins show ?thesis
    by (elim conjE) (intro conjI; assumption)
qed

theorem upload_alone_bypasses_json_witness:
  "header (outbound ''http://api'' (\<lambda>n. ''30'') [''auth_token'' \<mapsto> ''abc'']
      (Login ''a@b.c'' ''pw'' :: nat api_method)) ''Content-Type'' = Some ''application/json'' \<and>
   body (init (outbound ''http://api'' (\<lambda>n. ''30'') [''auth_token'' \<mapsto> ''abc'']
      (Login ''a@b.c'' ''pw'' :: nat api_method))) =
     Some (JSON_text (JObject [(''email'', JString ''a@b.c''), (''password'', JString ''pw'')])) \<and>
   sent (outbound ''http://api'' (\<lambda>n. ''30'') [''auth_token'' \<mapsto> ''abc'']
      (CreateExpense (JObject [(''amount'', JNumber 5), (''category'', JString ''Food'')])
        :: nat api_method)) =
     (''http://api/expenses'', Some POST,
      Some (JSON_text (JObject [(''amount'', JNumber 5), (''category'', JString ''Food'')]))) \<and>
   sent (outbound ''http://api'' (\<lambda>n. ''30'') [''auth_token'' \<mapsto> ''abc'']
      (UpdateExpense ''e7'' (JObject [(''amount'', JNumber 6)]) :: nat api_method)) =
     (''http://api/expenses/e7'', Some PUT, Some (JSON_text (JObject [(''amount'', JNumber 6)]))) \<and>
   sent (outbound ''http://api'' (\<lambda>n. ''30'') [''auth_token'' \<mapsto> ''abc'']
      (Signup ''a@b.c'' ''pw'' ''Ann'' :: nat api_method)) =
     (''http://api/auth/signup'', Some POST,
      Some (JSON_text (JObject [(''email'', JString ''a@b.c''), (''password'', JString ''pw''),
        (''name'', JString ''Ann'')]))) \<and>
   sent (outbound ''http://api'' (\<lambda>n. ''30'') [''auth_token'' \<mapsto> ''abc'']
      (UpdateProfile (JObject [(''full_name'', JString ''Ann'')]) :: nat api_method)) =
     (''http://api/profiles/me'', Some PUT,
      Some (JSON_text (JObject [(''full_name'', JString ''Ann'')]))) \<and>
   sent (outbound ''http://api'' (\<lambda>n. ''30'') [''auth_token'' \<mapsto> ''abc'']
      (GetExpenses (Some 30) :: nat api_method)) =
     (''http://api/expenses?days=30'', None, None) \<and>
   sent (outbound ''http://api'' (\<lambda>n. ''30'') [''auth_token'' \<mapsto> ''abc'']
      (DeleteExpense ''e7'' :: nat api_method)) =
     (''http://api/expenses/e7'', Some DELETE, None) \<and>
   header (outbound ''http://api'' (\<lambda>n. ''30'') [''auth_token'' \<mapsto> ''abc''] (UploadFile (7::nat)))
      ''Content-Type'' = None \<and>
   body (init (outbound ''http://api'' (\<lambda>n. ''30'') [''auth_token'' \<mapsto> ''abc''] (UploadFile (7::nat)))) =
     Some (FormData [(''file'', 7)])"
proof -
  let ?ls = "[''auth_token'' \<mapsto> ''abc'']"
  let ?out = "outbound ''http://api'' (\<lambda>n. ''30'') ?ls :: nat api_method \<Rightarrow> nat fetch_call"
  note create = upload_alone_bypasses_json [of "Login ''a@b.c'' ''pw'' :: nat api_method"
      "''http://api''" "\<lambda>n. ''30''" ?ls 7 "''a@b.c''" "''pw''" "''Ann''"
      "JObject [(''amount'', JNumber 5), (''category'', JString ''Food'')]" "''e7''" 30]
  note update = upload_alone_bypasses_json [of "UploadFile (7::nat)"
      "''http://api''" "\<lambda>n. ''30''" ?ls 7 "''a@b.c''" "''pw''" "''Ann''"
      "JObject [(''amount'', JNumber 6)]" "''e7''" 30]
  note profile = upload_alone_bypasses_json [of "UploadFile (7::nat)"
      "''http://api''" "\<lambda>n. ''30''" ?ls 7 "''a@b.c''" "''pw''" "''Ann''"
      "JObject [(''full_name'', JString ''Ann'')]" "''e7''" 30]
  have "\<forall>f. (Login ''a@b.c'' ''pw'' :: nat api_method) \<noteq> UploadFile f"
    by simp
  with create
  have login_type: "header (?out (Login ''a@b.c'' ''pw'')) ''Content-Type'' = Some ''application/json''"
    by blast
  have login_sent: "sent (?out (Login ''a@b.c'' ''pw'')) =
      (''http://api'' @ ''/auth/login'', Some POST,
       Some (JSON_text (JObject [(''email'', JString ''a@b.c''), (''password'', JString ''pw'')])))"
    using create by blast
  have create_sent: "sent (?out (CreateExpense
        (JObject [(''amount'', JNumber 5), (''category'', JString ''Food'')]))) =
      (''http://api'' @ ''/expenses'', Some POST,
       Some (JSON_text (JObject [(''amount'', JNumber 5), (''category'', JString ''Food'')])))"
    using create by blast
  have update_sent: "sent (?out (UpdateExpense ''e7'' (JObject [(''amount'', JNumber 6)]))) =
      (''http://api'' @ ''/expenses/'' @ ''e7'', Some PUT,
       Some (JSON_text (JObject [(''amount'', JNumber 6)])))"
    using update by blast
  have signup_sent: "sent (?out (Signup ''a@b.c'' ''pw'' ''Ann'')) =
      (''http://api'' @ ''/auth/signup'', Some POST,
       Some (JSON_text (JObject [(''email'', JString ''a@b.c''), (''password'', JString ''pw''),
         (''name'', JString ''Ann'')])))"
    using create by blast
  have profile_sent: "sent (?out (UpdateProfile (JObject [(''full_name'', JString ''Ann'')]))) =
      (''http://api'' @ ''/profiles/me'', Some PUT,
       Some (JSON_text (JObject [(''full_name'', JString ''Ann'')])))"
    using profile by blast
  have "(30::rat) \<noteq> 0"
    by simp
  with create
  have expenses_sent: "sent (?out (GetExpenses (Some 30))) =
      (''http://api'' @ ''/expenses?days='' @ ''30'', None, None)"
    by blast
  have delete_sent: "sent (?out (DeleteExpense ''e7'')) =
      (''http://api'' @ ''/expenses/'' @ ''e7'', Some DELETE, None)"
    using create by blast
  have upload_type: "header (?out (UploadFile 7)) ''Content-Type'' = None"
    and upload_body: "body (init (?out (UploadFile 7))) = Some (FormData [(''file'', 7)])"
    using update by blast+
  from login_sent have login_body: "body (init (?out (Login ''a@b.c'' ''pw''))) =
      Some (JSON_text (JObject [(''email'', JString ''a@b.c''), (''password'', JString ''pw'')]))"
    by (simp add: sent_def)
  from login_type login_body create_sent update_sent signup_sent profile_sent expenses_sent
    delete_sent upload_type upload_body
  show ?thesis by simp
qed

section \<open>Facts about \<open>request\<close>\<close>

lemma throw_new_Error_string [simp]: "throw_new_Error numstr (JString s) = new_Error s"
  by (simp add: throw_new_Error_def)

lemma first_error_Inl:
  "first_error rs = Inl e \<Longrightarrow> Inl e \<in> set rs"
  by (induction rs rule: first_error.induct) (auto split: sum.splits)

lemma to_string_error:
  "to_string numstr v = Inl e \<Longrightarrow>
   e = host_TypeError ''Cannot convert object to primitive value''"
proof (induction numstr v arbitrary: e rule: to_string.induct)
  case (6 numstr xs)
  then obtain x where x: "x \<in> set xs" "x \<noteq> JNull" "to_string numstr x = Inl e"
    by (auto split: sum.splits if_splits dest!: first_error_Inl)
  with "6.IH" show ?case by blast
qed (auto split: if_splits)

lemma throw_new_Error_has_no_status: "err_status (throw_new_Error numstr v) = None"
  by (auto simp: throw_new_Error_def new_Error_def host_TypeError_def
        split: sum.splits dest!: to_string_error)

lemma request_error_has_no_status:
  "request numstr outcome = Inl error \<Longrightarrow> err_status error = None"
  by (auto simp: request_def error_of_body_def message_or_def new_Error_def host_TypeError_def
        host_SyntaxError_def throw_new_Error_has_no_status
      split: fetch_outcome.splits body_json.splits if_splits sum.splits option.splits
      elim!: read_member.elims)

text \<open>
  Claim C3, as the code has it, whatever the endpoint and the options. When the
  status is in the success range and the body parses as JSON, \<open>request\<close>
  returns the parsed body. When the status is not in the success range: if the
  body does not parse, the error's message is \<open>Request failed\<close>; if it parses
  to a value other than \<open>null\<close>, the error is made from its member \<open>detail\<close>
  when that is truthy (present, and not \<open>null\<close>, \<open>false\<close>, \<open>0\<close> or the empty
  string), else from its member \<open>message\<close> when that is truthy, and else the
  message is \<open>Request failed\<close>. The error made from a member has the member's
  text as its message (the text of a string is the string); when the member has
  no text, the conversion throws and \<open>request\<close> fails with that TypeError.
\<close>

theorem request_contract:
  "(response_ok r \<and> json_body r = Parsed j \<longrightarrow> request numstr (Resolved r) = Inr j) \<and>
   (\<not> response_ok r \<and> json_body r = Unparseable u \<longrightarrow>
      request numstr (Resolved r) = Inl (new_Error ''Request failed'')) \<and>
   (\<not> response_ok r \<and> json_body r = Parsed j \<and>
      read_member j ''detail'' = Inr (Some d) \<and> truthy d \<and> to_string numstr d = Inr msg \<longrightarrow>
      request numstr (Resolved r) = Inl (new_Error msg)) \<and>
   (\<not> response_ok r \<and> json_body r = Parsed j \<and>
      read_member j ''detail'' = Inr (Some d) \<and> truthy d \<and> to_string numstr d = Inl e \<longrightarrow>
      request numstr (Resolved r) = Inl e) \<and>
   (\<not> response_ok r \<and> json_body r = Parsed j \<and> falsy_member j ''detail'' \<and>
      read_member j ''message'' = Inr (Some m) \<and> truthy m \<and> to_string numstr m = Inr msg \<longrightarrow>
      request numstr (Resolved r) = Inl (new_Error msg)) \<and>
   (\<not> response_ok r \<and> json_body r = Parsed j \<and> falsy_member j ''detail'' \<and>
      read_member j ''message'' = Inr (Some m) \<and> truthy m \<and> to_string numstr m = Inl e \<longrightarrow>
      request numstr (Resolved r) = Inl e) \<and>
   (\<not> response_ok r \<and> json_body r = Parsed j \<and> falsy_member j ''detail'' \<and>
      falsy_member j ''message'' \<longrightarrow>
      request numstr (Resolved r) = Inl (new_Error ''Request failed'')) \<and>
   to_string numstr (JString s) = Inr s"
  by (auto simp: request_def error_of_body_def message_or_def falsy_member_def
        throw_new_Error_def split: option.splits sum.splits)

theorem request_contract_witness:
  "request (\<lambda>n. ''0'') (Resolved \<lparr>status = 200, json_body = Parsed (JObject [(''success'', JBool True)])\<rparr>)
     = Inr (JObject [(''success'', JBool True)]) \<and>
   request (\<lambda>n. ''0'') (Resolved \<lparr>status = 502, json_body = Unparseable ''Unexpected token <''\<rparr>)
     = Inl (new_Error ''Request failed'') \<and>
   request (\<lambda>n. ''0'') (Resolved \<lparr>status = 401, json_body =
       Parsed (JObject [(''detail'', JString ''Invalid credentials''), (''message'', JString ''no'')])\<rparr>)
     = Inl (new_Error ''Invalid credentials'') \<and>
   request (\<lambda>n. ''0'') (Resolved \<lparr>status = 422, json_body =
       Parsed (JObject [(''detail'', JArray [JObject [(''toString'', JNumber 1)]])])\<rparr>)
     = Inl (host_TypeError ''Cannot convert object to primitive value'') \<and>
   request (\<lambda>n. ''0'') (Resolved \<lparr>status = 400, json_body =
       Parsed (JObject [(''message'', JString ''Bad input'')])\<rparr>)
     = Inl (new_Error ''Bad input'') \<and>
   request (\<lambda>n. ''0'') (Resolved \<lparr>status = 422, json_body =
       Parsed (JObject [(''message'', JObject [(''toString'', JString ''x'')])])\<rparr>)
     = Inl (host_TypeError ''Cannot convert object to primitive value'') \<and>
   request (\<lambda>n. ''0'') (Resolved \<lparr>status = 500, json_body = Parsed (JArray [])\<rparr>)
     = Inl (new_Error ''Request failed'')"
  using request_contract [of "\<lparr>status = 200, json_body = Parsed (JObject [(''success'', JBool True)])\<rparr>"
          "JObject [(''success'', JBool True)]" "\<lambda>n. ''0''" "[]" JNull "[]" "new_Error []" JNull "[]"]
        request_contract [of "\<lparr>status = 502, json_body = Unparseable ''Unexpected token <''\<rparr>"
          JNull "\<lambda>n. ''0''" "''Unexpected token <''" JNull "[]" "new_Error []" JNull "[]"]
        request_contract [of "\<lparr>status = 401, json_body =
            Parsed (JObject [(''detail'', JString ''Invalid credentials''), (''message'', JString ''no'')])\<rparr>"
          "JObject [(''detail'', JString ''Invalid credentials''), (''message'', JString ''no'')]"
          "\<lambda>n. ''0''" "[]" "JString ''Invalid credentials''" "''Invalid credentials''"
          "new_Error []" JNull "[]"]
        request_contract [of "\<lparr>status = 422, json_body =
            Parsed (JObject [(''detail'', JArray [JObject [(''toString'', JNumber 1)]])])\<rparr>"
          "JObject [(''detail'', JArray [JObject [(''toString'', JNumber 1)]])]"
          "\<lambda>n. ''0''" "[]" "JArray [JObject [(''toString'', JNumber 1)]]" "[]"
          "host_TypeError ''Cannot convert object to primitive value''" JNull "[]"]
        request_contract [of "\<lparr>status = 400, json_body =
            Parsed (JObject [(''message'', JString ''Bad input'')])\<rparr>"
          "JObject [(''message'', JString ''Bad input'')]" "\<lambda>n. ''0''" "[]" JNull
          "''Bad input''" "new_Error []" "JString ''Bad input''" "[]"]
        request_contract [of "\<lparr>status = 422, json_body =
            Parsed (JObject [(''message'', JObject [(''toString'', JString ''x'')])])\<rparr>"
          "JObject [(''message'', JObject [(''toString'', JString ''x'')])]" "\<lambda>n. ''0''" "[]" JNull
          "[]" "host_TypeError ''Cannot convert object to primitive value''"
          "JObject [(''toString'', JString ''x'')]" "[]"]
        request_contract [of "\<lparr>status = 500, json_body = Parsed (JArray [])\<rparr>"
          "JArray []" "\<lambda>n. ''0''" "[]" JNull "[]" "new_Error []" JNull "[]"]
  by (simp add: response_ok_def falsy_member_def)

text \<open>
  Claim C3 as stated fails in four places. A success status with a body that is
  not JSON (a 204 with no content) makes \<open>request\<close> fail with the parser's
  SyntaxError. An error body that is the JSON value \<open>null\<close> has neither member,
  and the error is the TypeError of the read, not \<open>Request failed\<close>. A member
  \<open>detail\<close> that is present and empty is passed over for \<open>message\<close>. A member
  \<open>detail\<close> that is an object with a member \<open>toString\<close> has no text, and the
  error is the TypeError of the conversion.
\<close>

theorem request_counterexample:
  "request (\<lambda>n. ''0'')
     (Resolved \<lparr>status = 204, json_body = Unparseable ''Unexpected end of JSON input''\<rparr>)
     = Inl (host_SyntaxError ''Unexpected end of JSON input'') \<and>
   request (\<lambda>n. ''0'') (Resolved \<lparr>status = 500, json_body = Parsed JNull\<rparr>)
     = Inl (host_TypeError (null_read_message ''detail'')) \<and>
   host_TypeError (null_read_message ''detail'') \<noteq> new_Error ''Request failed'' \<and>
   read_member (JObject [(''detail'', JString ''''), (''message'', JString ''boom'')]) ''detail''
     = Inr (Some (JString '''')) \<and>
   request (\<lambda>n. ''0'') (Resolved \<lparr>status = 400, json_body =
       Parsed (JObject [(''detail'', JString ''''), (''message'', JString ''boom'')])\<rparr>)
     = Inl (new_Error ''boom'') \<and>
   request (\<lambda>n. ''0'') (Resolved \<lparr>status = 422, json_body =
       Parsed (JObject [(''detail'', JObject [(''toString'', JNumber 1)])])\<rparr>)
     = Inl (host_TypeError ''Cannot convert object to primitive value'')"
  by (simp add: request_def error_of_body_def message_or_def response_ok_def
        host_TypeError_def new_Error_def throw_new_Error_def)

section \<open>Facts about the session store\<close>

text \<open>
  Claim C5. From every state, \<open>logout\<close> leaves none of the keys \<open>auth_token\<close>,
  \<open>tokenExpiry\<close> and \<open>user_data\<close> in the storage and changes no other key,
  sets the user to \<open>null\<close>, leaves \<open>loading\<close> as it is, and navigates to
  \<open>/login\<close> (then shows one toast).
\<close>

theorem logout_clears_session:
  "localStorage (logout s) ''auth_token'' = None \<and>
   localStorage (logout s) ''tokenExpiry'' = None \<and>
   localStorage (logout s) ''user_data'' = None \<and>
   (\<forall>k. k \<notin> {''auth_token'', ''tokenExpiry'', ''user_data''} \<longrightarrow>
      localStorage (logout s) k = localStorage s k) \<and>
   user (logout s) = None \<and>
   loading (logout s) = loading s \<and>
   (\<exists>toast. shown (logout s) = shown s @ [Navigate ''/login'', toast])"
  by (simp add: logout_def removeItem_def)

theorem logout_clears_session_witness:
  "localStorage (logout \<lparr>localStorage = [''auth_token'' \<mapsto> ''abc'', ''tokenExpiry'' \<mapsto> ''1700003600000'',
        ''user_data'' \<mapsto> ''{}'', ''theme'' \<mapsto> ''dark''],
      user = Some \<lparr>id_user = ''u1'', email = ''a@b.c'', name = ''Ann'', role = ''user''\<rparr>,
      loading = False, shown = []\<rparr>) ''auth_token'' = None \<and>
   localStorage (logout \<lparr>localStorage = [''auth_token'' \<mapsto> ''abc'', ''tokenExpiry'' \<mapsto> ''1700003600000'',
        ''user_data'' \<mapsto> ''{}'', ''theme'' \<mapsto> ''dark''],
      user = Some \<lparr>id_user = ''u1'', email = ''a@b.c'', name = ''Ann'', role = ''user''\<rparr>,
      loading = False, shown = []\<rparr>) ''theme'' = Some ''dark'' \<and>
   user (logout \<lparr>localStorage = [''auth_token'' \<mapsto> ''abc'', ''tokenExpiry'' \<mapsto> ''1700003600000'',
        ''user_data'' \<mapsto> ''{}'', ''theme'' \<mapsto> ''dark''],
      user = Some \<lparr>id_user = ''u1'', email = ''a@b.c'', name = ''Ann'', role = ''user''\<rparr>,
      loading = False, shown = []\<rparr>) = None"
  using logout_clears_session [of "\<lparr>localStorage = [''auth_token'' \<mapsto> ''abc'',
        ''tokenExpiry'' \<mapsto> ''1700003600000'', ''user_data'' \<mapsto> ''{}'', ''theme'' \<mapsto> ''dark''],
      user = Some \<lparr>id_user = ''u1'', email = ''a@b.c'', name = ''Ann'', role = ''user''\<rparr>,
      loading = False, shown = []\<rparr>"]
  by (simp add: logout_def removeItem_def)

text \<open>
  Claim C4. When \<open>api.login\<close> resolves, \<open>login\<close> resolves too, the user is the
  response's user, the keys \<open>auth_token\<close>, \<open>tokenExpiry\<close> and \<open>user_data\<close> hold
  the response's token, the text of the clock plus a thousand times the
  response's \<open>expires_in\<close>, and the serialised user of the response, and every
  other key is as before. When \<open>api.login\<close> rejects, \<open>login\<close> rejects with the
  same error, and the storage and the user are as before.
\<close>

theorem login_persists_session:
  "(login h (Inr response) s = (s', settled) \<longrightarrow>
      settled = Inr () \<and>
      user s' = Some (user_of (data response)) \<and>
      localStorage s' ''auth_token'' = Some (token (data response)) \<and>
      localStorage s' ''tokenExpiry'' =
        Some (number_toString h (Date_now h + expires_in (data response) * 1000)) \<and>
      localStorage s' ''user_data'' = Some (JSON_stringify h (user_of (data response))) \<and>
      (\<forall>k. k \<notin> {''auth_token'', ''tokenExpiry'', ''user_data''} \<longrightarrow>
         localStorage s' k = localStorage s k)) \<and>
   (login h (Inl error) s = (s', settled) \<longrightarrow>
      settled = Inl error \<and> localStorage s' = localStorage s \<and> user s' = user s)"
  by (auto simp: login_def store_session_def setItem_def Let_def)

theorem login_persists_session_witness:
  "user (fst (login
      \<lparr>Date_now = 1700000000000, number_toString = (\<lambda>n. if n = 1700003600000 then ''1700003600000'' else ''?''),
       JSON_stringify = (\<lambda>u. ''{...}''), JSON_parse = (\<lambda>t. Inr None)\<rparr>
      (Inr \<lparr>success = True, message = ''ok'',
        data = \<lparr>token = ''abc'', refresh_token = ''def'', expires_in = 3600,
          user_of = \<lparr>id_user = ''u1'', email = ''a@b.c'', name = ''Ann'', role = ''user''\<rparr>\<rparr>\<rparr>)
      \<lparr>localStorage = [''theme'' \<mapsto> ''dark''], user = None, loading = False, shown = []\<rparr>))
     = Some \<lparr>id_user = ''u1'', email = ''a@b.c'', name = ''Ann'', role = ''user''\<rparr> \<and>
   localStorage (fst (login
      \<lparr>Date_now = 1700000000000, number_toString = (\<lambda>n. if n = 1700003600000 then ''1700003600000'' else ''?''),
       JSON_stringify = (\<lambda>u. ''{...}''), JSON_parse = (\<lambda>t. Inr None)\<rparr>
      (Inr \<lparr>success = True, message = ''ok'',
        data = \<lparr>token = ''abc'', refresh_token = ''def'', expires_in = 3600,
          user_of = \<lparr>id_user = ''u1'', email = ''a@b.c'', name = ''Ann'', role = ''user''\<rparr>\<rparr>\<rparr>)
      \<lparr>localStorage = [''theme'' \<mapsto> ''dark''], user = None, loading = False, shown = []\<rparr>))
     = [''theme'' \<mapsto> ''dark'', ''auth_token'' \<mapsto> ''abc'', ''tokenExpiry'' \<mapsto> ''1700003600000'',
        ''user_data'' \<mapsto> ''{...}''] \<and>
   localStorage (fst (login
      \<lparr>Date_now = 1700000000000, number_toString = (\<lambda>n. if n = 1700003600000 then ''1700003600000'' else ''?''),
       JSON_stringify = (\<lambda>u. ''{...}''), JSON_parse = (\<lambda>t. Inr None)\<rparr>
      (Inl (new_Error ''Invalid credentials''))
      \<lparr>localStorage = [''theme'' \<mapsto> ''dark''], user = None, loading = False, shown = []\<rparr>))
     = [''theme'' \<mapsto> ''dark''] \<and>
   user (fst (login
      \<lparr>Date_now = 1700000000000, number_toString = (\<lambda>n. if n = 1700003600000 then ''1700003600000'' else ''?''),
       JSON_stringify = (\<lambda>u. ''{...}''), JSON_parse = (\<lambda>t. Inr None)\<rparr>
      (Inl (new_Error ''Invalid credentials''))
      \<lparr>localStorage = [''theme'' \<mapsto> ''dark''], user = None, loading = False, shown = []\<rparr>))
     = None"
proof -
  let ?h = "\<lparr>Date_now = 1700000000000,
      number_toString = (\<lambda>n. if n = 1700003600000 then ''1700003600000'' else ''?''),
      JSON_stringify = (\<lambda>u. ''{...}''), JSON_parse = (\<lambda>t. Inr None)\<rparr>"
  let ?response = "\<lparr>success = True, message = ''ok'',
        data = \<lparr>token = ''abc'', refresh_token = ''def'', expires_in = 3600,
          user_of = \<lparr>id_user = ''u1'', email = ''a@b.c'', name = ''Ann'', role = ''user''\<rparr>\<rparr>\<rparr>"
  let ?s = "\<lparr>localStorage = [''theme'' \<mapsto> ''dark''], user = None, loading = False, shown = []\<rparr>"
  let ?ok = "login ?h (Inr ?response) ?s"
  let ?failed = "login ?h (Inl (new_Error ''Invalid credentials'') :: js_error + auth_response api_response) ?s"
  have ok: "user (fst ?ok) = Some (user_of (data ?response)) \<and>
      localStorage (fst ?ok) ''auth_token'' = Some ''abc'' \<and>
      localStorage (fst ?ok) ''tokenExpiry'' = Some ''1700003600000'' \<and>
      localStorage (fst ?ok) ''user_data'' = Some ''{...}'' \<and>
      (\<forall>k. k \<notin> {''auth_token'', ''tokenExpiry'', ''user_data''} \<longrightarrow>
         localStorage (fst ?ok) k = localStorage ?s k)"
    using login_persists_session [of ?h ?response ?s "fst ?ok" "snd ?ok"] by simp
  have failed: "localStorage (fst ?failed) = localStorage ?s \<and> user (fst ?failed) = user ?s"
    using login_persists_session [of ?h _ ?s "fst ?failed" "snd ?failed" "new_Error ''Invalid credentials''"]
    by simp
  have "localStorage (fst ?ok) k =
      [''theme'' \<mapsto> ''dark'', ''auth_token'' \<mapsto> ''abc'', ''tokenExpiry'' \<mapsto> ''1700003600000'',
        ''user_data'' \<mapsto> ''{...}''] k" for k
    using ok by (cases "k \<in> {''auth_token'', ''tokenExpiry'', ''user_data''}") auto
  then have "localStorage (fst ?ok) =
      [''theme'' \<mapsto> ''dark'', ''auth_token'' \<mapsto> ''abc'', ''tokenExpiry'' \<mapsto> ''1700003600000'',
        ''user_data'' \<mapsto> ''{...}'']"
    by blast
  with ok failed show ?thesis by simp
qed

lemma request_as_error_has_no_status:
  "request_as view numstr outcome = Inl error \<Longrightarrow> err_status error = None"
  by (auto simp: request_as_def request_error_has_no_status split: sum.splits)

lemma checkAuth_clears:
  assumes "localStorage s ''auth_token'' = Some stored" "stored \<noteq> []"
    and "err_status error = None" "\<not> str_includes (err_message error) ''404''"
  shows "checkAuth h (Inl error) s =
    s\<lparr>localStorage :=
        removeItem ''user_data''
          (removeItem ''tokenExpiry'' (removeItem ''auth_token'' (localStorage s))),
      loading := False\<rparr>"
  using assms by (simp add: checkAuth_def checkAuth_lookup_def)

text \<open>
  Claim C2 fails on the code. The error \<open>request\<close> throws for a 404 has the
  server's message and no \<open>status\<close>, so \<open>checkAuth\<close> recognises a 404 by the
  text \<open>404\<close> in the message only. On the 404 whose body is
  \<open>{"detail":"Not Found"}\<close> the error is rethrown: the three keys are removed
  and the user stays \<open>null\<close>, the cached snapshot is not restored.
\<close>

theorem checkAuth_404_clears_session:
  "request_as view numstr
     (Resolved \<lparr>status = 404, json_body = Parsed (JObject [(''detail'', JString ''Not Found'')])\<rparr>)
     = Inl (new_Error ''Not Found'') \<and>
   checkAuth h
     (request_as view numstr
       (Resolved \<lparr>status = 404, json_body = Parsed (JObject [(''detail'', JString ''Not Found'')])\<rparr>))
     \<lparr>localStorage = [''auth_token'' \<mapsto> ''abc'', ''tokenExpiry'' \<mapsto> ''1700003600000'',
        ''user_data'' \<mapsto> ''{...}''],
      user = None, loading = True, shown = []\<rparr>
     = \<lparr>localStorage = Map.empty, user = None, loading = False, shown = []\<rparr>"
proof -
  have failed: "request_as view numstr
     (Resolved \<lparr>status = 404, json_body = Parsed (JObject [(''detail'', JString ''Not Found'')])\<rparr>)
     = Inl (new_Error ''Not Found'')"
    by (simp add: request_as_def request_def response_ok_def error_of_body_def)
  have "[''auth_token'' \<mapsto> ''abc'', ''tokenExpiry'' \<mapsto> ''1700003600000'',
        ''user_data'' \<mapsto> ''{...}''](''auth_token'' := None, ''tokenExpiry'' := None,
        ''user_data'' := None) = (Map.empty :: storage)"
    by (rule ext) simp
  then show ?thesis
    unfolding failed
    by (simp add: checkAuth_def checkAuth_lookup_def new_Error_def removeItem_def)
qed

text \<open>
  Claim C6 fails on the code. A failure that is not a 404 and whose message
  contains the text \<open>404\<close> is taken for a 404 by the guard of \<open>checkAuth\<close>:
  on a 500 whose detail is \<open>Upstream returned 404\<close>, and on a 401 whose detail
  is \<open>Token 7f404a expired\<close>, no key is removed and the cached user is restored,
  where the rethrow of the same \<open>catch\<close> clears the session.
\<close>

theorem checkAuth_404_text_keeps_session:
  "request_as (\<lambda>j. \<lparr>success = True, message = [], data = \<lparr>id_user = ''u1'', email = ''a@b.c'', name = ''Ann'', role = ''user''\<rparr>\<rparr>)
     (\<lambda>n. ''0'')
     (Resolved \<lparr>status = 500, json_body =
        Parsed (JObject [(''detail'', JString ''Upstream returned 404'')])\<rparr>)
     = Inl (new_Error ''Upstream returned 404'') \<and>
   checkAuth
     \<lparr>Date_now = 1700000000000, number_toString = (\<lambda>n. ''0''), JSON_stringify = (\<lambda>u. ''{...}''),
      JSON_parse = (\<lambda>t. Inr (Some \<lparr>id_user = ''u1'', email = ''a@b.c'', name = ''Ann'', role = ''user''\<rparr>))\<rparr>
     (request_as (\<lambda>j. \<lparr>success = True, message = [], data = \<lparr>id_user = ''u1'', email = ''a@b.c'', name = ''Ann'', role = ''user''\<rparr>\<rparr>)
       (\<lambda>n. ''0'')
       (Resolved \<lparr>status = 500, json_body =
          Parsed (JObject [(''detail'', JString ''Upstream returned 404'')])\<rparr>))
     \<lparr>localStorage = [''auth_token'' \<mapsto> ''abc'', ''tokenExpiry'' \<mapsto> ''1700003600000'',
        ''user_data'' \<mapsto> ''{...}''],
      user = None, loading = True, shown = []\<rparr>
     = \<lparr>localStorage = [''auth_token'' \<mapsto> ''abc'', ''tokenExpiry'' \<mapsto> ''1700003600000'',
        ''user_data'' \<mapsto> ''{...}''],
      user = Some \<lparr>id_user = ''u1'', email = ''a@b.c'', name = ''Ann'', role = ''user''\<rparr>,
      loading = False, shown = []\<rparr> \<and>
   checkAuth
     \<lparr>Date_now = 1700000000000, number_toString = (\<lambda>n. ''0''), JSON_stringify = (\<lambda>u. ''{...}''),
      JSON_parse = (\<lambda>t. Inr (Some \<lparr>id_user = ''u1'', email = ''a@b.c'', name = ''Ann'', role = ''user''\<rparr>))\<rparr>
     (request_as (\<lambda>j. \<lparr>success = True, message = [], data = \<lparr>id_user = ''u1'', email = ''a@b.c'', name = ''Ann'', role = ''user''\<rparr>\<rparr>)
       (\<lambda>n. ''0'')
       (Resolved \<lparr>status = 401, json_body =
          Parsed (JObject [(''detail'', JString ''Token 7f404a expired'')])\<rparr>))
     \<lparr>localStorage = [''auth_token'' \<mapsto> ''abc'', ''tokenExpiry'' \<mapsto> ''1700003600000'',
        ''user_data'' \<mapsto> ''{...}''],
      user = None, loading = True, shown = []\<rparr>
     = \<lparr>localStorage = [''auth_token'' \<mapsto> ''abc'', ''tokenExpiry'' \<mapsto> ''1700003600000'',
        ''user_data'' \<mapsto> ''{...}''],
      user = Some \<lparr>id_user = ''u1'', email = ''a@b.c'', name = ''Ann'', role = ''user''\<rparr>,
      loading = False, shown = []\<rparr>"
  by (simp add: request_as_def request_def response_ok_def error_of_body_def
        checkAuth_def checkAuth_lookup_def new_Error_def)

text \<open>
  Beyond the claims: with a stored token, when the lookup fails and the error's
  message does not contain the text \<open>404\<close>, the three keys \<open>auth_token\<close>,
  \<open>tokenExpiry\<close> and \<open>user_data\<close> are removed together, every other key stays,
  the user is as it was (\<open>null\<close> at initialization) and \<open>loading\<close> ends.
\<close>

theorem checkAuth_failure_clears_session:
  "localStorage s ''auth_token'' = Some stored \<and> stored \<noteq> [] \<and>
   request_as view numstr outcome = Inl error \<and>
   \<not> str_includes (err_message error) ''404'' \<longrightarrow>
     localStorage (checkAuth h (request_as view numstr outcome) s) ''auth_token'' = None \<and>
     localStorage (checkAuth h (request_as view numstr outcome) s) ''tokenExpiry'' = None \<and>
     localStorage (checkAuth h (request_as view numstr outcome) s) ''user_data'' = None \<and>
     (\<forall>k. k \<notin> {''auth_token'', ''tokenExpiry'', ''user_data''} \<longrightarrow>
        localStorage (checkAuth h (request_as view numstr outcome) s) k = localStorage s k) \<and>
     user (checkAuth h (request_as view numstr outcome) s) = user s \<and>
     loading (checkAuth h (request_as view numstr outcome) s) = False"
proof (intro impI, elim conjE)
  assume stored: "localStorage s ''auth_token'' = Some stored" "stored \<noteq> []"
    and failed: "request_as view numstr outcome = Inl error"
    and quiet: "\<not> str_includes (err_message error) ''404''"
  from failed have "err_status error = None"
    by (rule request_as_error_has_no_status)
  from checkAuth_clears [OF stored this quiet, of h] show
    "localStorage (checkAuth h (request_as view numstr outcome) s) ''auth_token'' = None \<and>
     localStorage (checkAuth h (request_as view numstr outcome) s) ''tokenExpiry'' = None \<and>
     localStorage (checkAuth h (request_as view numstr outcome) s) ''user_data'' = None \<and>
     (\<forall>k. k \<notin> {''auth_token'', ''tokenExpiry'', ''user_data''} \<longrightarrow>
        localStorage (checkAuth h (request_as view numstr outcome) s) k = localStorage s k) \<and>
     user (checkAuth h (request_as view numstr outcome) s) = user s \<and>
     loading (checkAuth h (request_as view numstr outcome) s) = False"
    unfolding failed by (simp add: removeItem_def)
qed

theorem checkAuth_failure_clears_session_witness:
  "localStorage (checkAuth
     \<lparr>Date_now = 1700000000000, number_toString = (\<lambda>n. ''0''), JSON_stringify = (\<lambda>u. ''{...}''),
      JSON_parse = (\<lambda>t. Inr None)\<rparr>
     (request_as (\<lambda>j. \<lparr>success = True, message = [], data = \<lparr>id_user = ''u1'', email = ''a@b.c'', name = ''Ann'', role = ''user''\<rparr>\<rparr>)
       (\<lambda>n. ''0'')
       (Resolved \<lparr>status = 401, json_body =
          Parsed (JObject [(''detail'', JString ''Token expired'')])\<rparr>))
     \<lparr>localStorage = [''auth_token'' \<mapsto> ''abc'', ''tokenExpiry'' \<mapsto> ''1700003600000'',
        ''user_data'' \<mapsto> ''{...}'', ''theme'' \<mapsto> ''dark''],
      user = None, loading = True, shown = []\<rparr>) = [''theme'' \<mapsto> ''dark''] \<and>
   user (checkAuth
     \<lparr>Date_now = 1700000000000, number_toString = (\<lambda>n. ''0''), JSON_stringify = (\<lambda>u. ''{...}''),
      JSON_parse = (\<lambda>t. Inr None)\<rparr>
     (request_as (\<lambda>j. \<lparr>success = True, message = [], data = \<lparr>id_user = ''u1'', email = ''a@b.c'', name = ''Ann'', role = ''user''\<rparr>\<rparr>)
       (\<lambda>n. ''0'')
       (Resolved \<lparr>status = 401, json_body =
          Parsed (JObject [(''detail'', JString ''Token expired'')])\<rparr>))
     \<lparr>localStorage = [''auth_token'' \<mapsto> ''abc'', ''tokenExpiry'' \<mapsto> ''1700003600000'',
        ''user_data'' \<mapsto> ''{...}'', ''theme'' \<mapsto> ''dark''],
      user = None, loading = True, shown = []\<rparr>) = None"
proof -
  let ?h = "\<lparr>Date_now = 1700000000000, number_toString = (\<lambda>n. ''0''),
      JSON_stringify = (\<lambda>u. ''{...}''), JSON_parse = (\<lambda>t. Inr None)\<rparr>"
  let ?view = "\<lambda>j::json. \<lparr>success = True, message = [],
      data = \<lparr>id_user = ''u1'', email = ''a@b.c'', name = ''Ann'', role = ''user''\<rparr>\<rparr>"
  let ?outcome = "Resolved \<lparr>status = 401, json_body =
          Parsed (JObject [(''detail'', JString ''Token expired'')])\<rparr>"
  let ?s = "\<lparr>localStorage = [''auth_token'' \<mapsto> ''abc'', ''tokenExpiry'' \<mapsto> ''1700003600000'',
        ''user_data'' \<mapsto> ''{...}'', ''theme'' \<mapsto> ''dark''],
      user = None, loading = True, shown = []\<rparr>"
  let ?s' = "checkAuth ?h (request_as ?view (\<lambda>n. ''0'') ?outcome) ?s"
  have failed: "request_as ?view (\<lambda>n. ''0'') ?outcome = Inl (new_Error ''Token expired'')"
    by (simp add: request_as_def request_def response_ok_def error_of_body_def)
  have quiet: "\<not> str_includes (err_message (new_Error ''Token expired'')) ''404''"
    by (simp add: new_Error_def)
  have cleared: "localStorage ?s' ''auth_token'' = None \<and>
     localStorage ?s' ''tokenExpiry'' = None \<and>
     localStorage ?s' ''user_data'' = None \<and>
     (\<forall>k. k \<notin> {''auth_token'', ''tokenExpiry'', ''user_data''} \<longrightarrow>
        localStorage ?s' k = localStorage ?s k) \<and>
     user ?s' = user ?s \<and> loading ?s' = False"
    using checkAuth_failure_clears_session [of ?s "''abc''" ?view "\<lambda>n. ''0''" ?outcome
        "new_Error ''Token expired''" ?h] failed quiet
    by simp
  have "localStorage ?s' k = [''theme'' \<mapsto> ''dark''] k" for k
    using cleared by (cases "k \<in> {''auth_token'', ''tokenExpiry'', ''user_data''}") auto
  then have "localStorage ?s' = [''theme'' \<mapsto> ''dark'']" by blast
  with cleared show ?thesis by simp
qed

text \<open>
  Beyond the claims: with a stored token, when the error's message contains the
  text \<open>404\<close> and the cached snapshot parses, \<open>checkAuth\<close> restores the
  snapshot as the user and changes nothing else but \<open>loading\<close>.
\<close>

theorem checkAuth_restores_cached_user:
  "localStorage s ''auth_token'' = Some stored \<and> stored \<noteq> [] \<and>
   str_includes (err_message error) ''404'' \<and>
   localStorage s ''user_data'' = Some cachedUser \<and> cachedUser \<noteq> [] \<and>
   JSON_parse h cachedUser = Inr u \<longrightarrow>
     checkAuth h (Inl error) s = s\<lparr>user := u, loading := False\<rparr>"
  by (simp add: checkAuth_def checkAuth_lookup_def)

theorem checkAuth_restores_cached_user_witness:
  "checkAuth
     \<lparr>Date_now = 1700000000000, number_toString = (\<lambda>n. ''0''), JSON_stringify = (\<lambda>u. ''{...}''),
      JSON_parse = (\<lambda>t. Inr (Some \<lparr>id_user = ''u1'', email = ''a@b.c'', name = ''Ann'', role = ''user''\<rparr>))\<rparr>
     (Inl (new_Error ''HTTP 404''))
     \<lparr>localStorage = [''auth_token'' \<mapsto> ''abc'', ''user_data'' \<mapsto> ''{...}''],
      user = None, loading = True, shown = []\<rparr>
   = \<lparr>localStorage = [''auth_token'' \<mapsto> ''abc'', ''user_data'' \<mapsto> ''{...}''],
      user = Some \<lparr>id_user = ''u1'', email = ''a@b.c'', name = ''Ann'', role = ''user''\<rparr>,
      loading = False, shown = []\<rparr>"
  using checkAuth_restores_cached_user [of
      "\<lparr>localStorage = [''auth_token'' \<mapsto> ''abc'', ''user_data'' \<mapsto> ''{...}''],
        user = None, loading = True, shown = []\<rparr>" "''abc''" "new_Error ''HTTP 404''" "''{...}''"
      "\<lparr>Date_now = 1700000000000, number_toString = (\<lambda>n. ''0''), JSON_stringify = (\<lambda>u. ''{...}''),
        JSON_parse = (\<lambda>t. Inr (Some \<lparr>id_user = ''u1'', email = ''a@b.c'', name = ''Ann'', role = ''user''\<rparr>))\<rparr>"
      "Some \<lparr>id_user = ''u1'', email = ''a@b.c'', name = ''Ann'', role = ''user''\<rparr>"]
  by (simp add: new_Error_def)

section \<open>Facts about the expense form\<close>

lemma check_paths:
  "i \<in> set (check_expense_date v) \<Longrightarrow> issue_path i = ''expense_date''"
  "i \<in> set (check_amount a) \<Longrightarrow> issue_path i = ''amount''"
  "i \<in> set (check_category c) \<Longrightarrow> issue_path i = ''category''"
  "i \<in> set (check_merchant m) \<Longrightarrow> issue_path i = ''merchant''"
  "i \<in> set (check_note n) \<Longrightarrow> issue_path i = ''note''"
  by (auto simp: check_expense_date_def check_amount_def check_category_def check_merchant_def
        check_note_def split: if_splits option.splits)

lemma issue_of_its_member:
  assumes "i \<in> set (expenseSchema formData)"
  shows "i \<in> set (member_issues formData (issue_path i))"
proof -
  from assms obtain k where k: "i \<in> set (member_issues formData k)"
    by (auto simp: expenseSchema_def)
  then have "issue_path i = k"
    by (auto simp: member_issues_def check_paths split: if_splits)
  with k show ?thesis by simp
qed

lemma handleSubmit_invalid:
  assumes "expenseSchema formData = first # rest"
  shows "handleSubmit formData editingExpense result =
    [PreventDefault, ShowToast ''Validation Error'' (issue_message first) Destructive]"
  using assms by (simp add: handleSubmit_def)

lemma schema_amount_first:
  "expense_date formData \<noteq> [] \<Longrightarrow>
   \<exists>rest. expenseSchema formData = check_amount (amount formData) @ rest"
  by (simp add: expenseSchema_def member_issues_def check_expense_date_def)

lemma schema_category_first:
  "expense_date formData \<noteq> [] \<Longrightarrow> 0 < amount formData \<Longrightarrow> amount formData \<le> 999999 \<Longrightarrow>
   \<exists>rest. expenseSchema formData = check_category (category formData) @ rest"
  by (simp add: expenseSchema_def member_issues_def check_expense_date_def check_amount_def)

text \<open>
  Claim C1. A form whose amount is at most 0 or above 999999, or whose category
  is empty, fails the validation. Whenever the validation fails, \<open>handleSubmit\<close>
  does nothing but show one toast: it makes no network call (neither
  \<open>updateExpense\<close> nor \<open>createExpense\<close>, nor the reload), and the message shown
  is that of the first issue, an issue of the member it names, so of a member
  that fails. With a date given, a non-positive amount shows
  \<open>Amount must be positive\<close> and an amount above 999999 shows
  \<open>Amount too large\<close>; with the date and the amount valid, an empty category
  shows \<open>Category is required\<close>.
\<close>

theorem invalid_form_is_not_sent:
  "(amount formData \<le> 0 \<or> amount formData > 999999 \<or> category formData = [] \<longrightarrow>
      expenseSchema formData \<noteq> []) \<and>
   (expenseSchema formData \<noteq> [] \<longrightarrow>
      (\<exists>first. handleSubmit formData editingExpense result =
          [PreventDefault, ShowToast ''Validation Error'' (issue_message first) Destructive] \<and>
        first = hd (expenseSchema formData) \<and>
        first \<in> set (member_issues formData (issue_path first))) \<and>
      filter is_network_call (handleSubmit formData editingExpense result) = []) \<and>
   (expense_date formData \<noteq> [] \<and> amount formData \<le> 0 \<longrightarrow>
      handleSubmit formData editingExpense result =
        [PreventDefault,
         ShowToast ''Validation Error'' (Literal ''Amount must be positive'') Destructive]) \<and>
   (expense_date formData \<noteq> [] \<and> amount formData > 999999 \<longrightarrow>
      handleSubmit formData editingExpense result =
        [PreventDefault, ShowToast ''Validation Error'' (Literal ''Amount too large'') Destructive]) \<and>
   (expense_date formData \<noteq> [] \<and> 0 < amount formData \<and> amount formData \<le> 999999 \<and>
      category formData = [] \<longrightarrow>
      handleSubmit formData editingExpense result =
        [PreventDefault,
         ShowToast ''Validation Error'' (Literal ''Category is required'') Destructive])"
proof -
  have fails: "expenseSchema formData \<noteq> []"
    if "amount formData \<le> 0 \<or> amount formData > 999999 \<or> category formData = []"
    using that
    by (auto simp: expenseSchema_def member_issues_def check_amount_def check_category_def)
  have shown: "\<exists>first. handleSubmit formData editingExpense result =
          [PreventDefault, ShowToast ''Validation Error'' (issue_message first) Destructive] \<and>
        first = hd (expenseSchema formData) \<and>
        first \<in> set (member_issues formData (issue_path first))"
    and silent: "filter is_network_call (handleSubmit formData editingExpense result) = []"
    if "expenseSchema formData \<noteq> []"
  proof -
    from that obtain first rest where eq: "expenseSchema formData = first # rest"
      by (cases "expenseSchema formData") auto
    then have "first \<in> set (expenseSchema formData)" by simp
    then have "first \<in> set (member_issues formData (issue_path first))"
      by (rule issue_of_its_member)
    with eq show "\<exists>first. handleSubmit formData editingExpense result =
          [PreventDefault, ShowToast ''Validation Error'' (issue_message first) Destructive] \<and>
        first = hd (expenseSchema formData) \<and>
        first \<in> set (member_issues formData (issue_path first))"
      by (simp add: handleSubmit_invalid)
    from eq show "filter is_network_call (handleSubmit formData editingExpense result) = []"
      by (simp add: handleSubmit_invalid)
  qed
  have positive: "handleSubmit formData editingExpense result =
        [PreventDefault,
         ShowToast ''Validation Error'' (Literal ''Amount must be positive'') Destructive]"
    if "expense_date formData \<noteq> []" "amount formData \<le> 0"
    using schema_amount_first [OF that(1)] that(2)
    by (auto simp: check_amount_def handleSubmit_invalid)
  have large: "handleSubmit formData editingExpense result =
        [PreventDefault, ShowToast ''Validation Error'' (Literal ''Amount too large'') Destructive]"
    if "expense_date formData \<noteq> []" "amount formData > 999999"
    using schema_amount_first [OF that(1)] that(2)
    by (auto simp: check_amount_def handleSubmit_invalid)
  have required: "handleSubmit formData editingExpense result =
        [PreventDefault,
         ShowToast ''Validation Error'' (Literal ''Category is required'') Destructive]"
    if "expense_date formData \<noteq> []" "0 < amount formData" "amount formData \<le> 999999"
      "category formData = []"
    using schema_category_first [OF that(1,2,3)] that(4)
    by (auto simp: check_category_def handleSubmit_invalid)
  from fails shown silent positive large required show ?thesis by blast
qed


theorem invalid_form_is_not_sent_witness:
  "handleSubmit \<lparr>user_id = ''u1'', expense_date = ''2026-11-02'', amount = 0, category = [],
       merchant = Some [], note_text = Some [], tags = Some [], attachments = None\<rparr>
     None (Inr ()) =
     [PreventDefault,
      ShowToast ''Validation Error'' (Literal ''Amount must be positive'') Destructive] \<and>
   filter is_network_call
     (handleSubmit \<lparr>user_id = ''u1'', expense_date = ''2026-11-02'', amount = 0, category = [],
         merchant = Some [], note_text = Some [], tags = Some [], attachments = None\<rparr>
       None (Inr ())) = [] \<and>
   handleSubmit \<lparr>user_id = ''u1'', expense_date = ''2026-11-02'', amount = 1000000,
       category = ''Food'', merchant = Some [], note_text = Some [], tags = Some [],
       attachments = None\<rparr>
     None (Inr ()) =
     [PreventDefault, ShowToast ''Validation Error'' (Literal ''Amount too large'') Destructive] \<and>
   handleSubmit \<lparr>user_id = ''u1'', expense_date = ''2026-11-02'', amount = 25 / 2, category = [],
       merchant = Some [], note_text = Some [], tags = Some [], attachments = None\<rparr>
     None (Inr ()) =
     [PreventDefault,
      ShowToast ''Validation Error'' (Literal ''Category is required'') Destructive]"
  using invalid_form_is_not_sent [of "\<lparr>user_id = ''u1'', expense_date = ''2026-11-02'', amount = 0,
          category = [], merchant = Some [], note_text = Some [], tags = Some [],
          attachments = None\<rparr>" None "Inr ()"]
        invalid_form_is_not_sent [of "\<lparr>user_id = ''u1'', expense_date = ''2026-11-02'',
          amount = 1000000, category = ''Food'', merchant = Some [], note_text = Some [],
          tags = Some [], attachments = None\<rparr>" None "Inr ()"]
        invalid_form_is_not_sent [of "\<lparr>user_id = ''u1'', expense_date = ''2026-11-02'',
          amount = 25 / 2, category = [], merchant = Some [], note_text = Some [],
          tags = Some [], attachments = None\<rparr>" None "Inr ()"]
  by simp

section \<open>Facts about the file list\<close>













section \<open>Facts about the dashboard\<close>

text \<open>
  Claim C9 fails on the code for a category that is the name of a member of
  \<open>Object.prototype\<close>. For the one expense of amount 5 and category
  \<open>constructor\<close>, the read \<open>acc["constructor"]\<close> gives the inherited function,
  which is truthy, and \<open>+\<close> makes a string of it and the amount: the entry of
  \<open>categoryTotals\<close> is that string, not the sum 5 of the category's amounts.
\<close>

theorem categoryTotals_inherited_key:
  "categoryTotals
     [\<lparr>user_id = ''u1'', expense_date = ''2026-11-02'', amount = 5, category = ''constructor'',
       merchant = None, note_text = None, tags = None, attachments = None\<rparr>] ''constructor''
     = Some (Concat (Inherited ''constructor'') 5) \<and>
   sum_list (map amount (filter (\<lambda>e. category e = ''constructor'')
     [\<lparr>user_id = ''u1'', expense_date = ''2026-11-02'', amount = 5, category = ''constructor'',
       merchant = None, note_text = None, tags = None, attachments = None\<rparr>])) = 5"
  by (simp add: categoryTotals_def write_acc_def read_acc_def Object_prototype_def)

end
